theory Spec2Isabelle
  imports Main
begin

section \<open>Paths\<close>

text \<open>
  The sources build every path with \<^verbatim>\<open>pathlib.Path\<close> on a POSIX system: a path is an
  anchor (the empty string for a relative path, \<^verbatim>\<open>/\<close> or \<^verbatim>\<open>//\<close> for an absolute one)
  and the list of its components. \<^verbatim>\<open>Path(s)\<close> splits \<open>s\<close> at the slashes and drops the
  empty components and the components \<^verbatim>\<open>.\<close>; \<^verbatim>\<open>p / s\<close> appends the components of
  \<open>s\<close>, unless \<open>s\<close> is absolute, which replaces \<open>p\<close>.
\<close>

datatype path = Path (anchor: string) (parts: "string list")

fun split_slash :: "string \<Rightarrow> string list" where
  "split_slash [] = [[]]"
| "split_slash (c # cs) =
     (if c = CHR ''/'' then [] # split_slash cs
      else (case split_slash cs of
              [] \<Rightarrow> [[c]]
            | w # ws \<Rightarrow> (c # w) # ws))"

definition path_anchor :: "string \<Rightarrow> string" where
  "path_anchor s =
     (if take 2 s = ''//'' \<and> take 3 s \<noteq> ''///'' then ''//''
      else if take 1 s = ''/'' then ''/''
      else [])"

definition path_parts :: "string \<Rightarrow> string list" where
  "path_parts s = filter (\<lambda>w. w \<noteq> [] \<and> w \<noteq> ''.'') (split_slash s)"

definition mk_path :: "string \<Rightarrow> path" where
  "mk_path s = Path (path_anchor s) (path_parts s)"

definition truediv :: "path \<Rightarrow> string \<Rightarrow> path" where
  "truediv p s =
     (let q = mk_path s
      in if anchor q \<noteq> [] then q else Path (anchor p) (parts p @ parts q))"

text \<open>
  \<^verbatim>\<open>p.relative_to(d)\<close>: the components of \<open>p\<close> below \<open>d\<close>, and an error (here
  \<open>None\<close>) when \<open>p\<close> does not lie below \<open>d\<close>.
\<close>

definition relative_to :: "path \<Rightarrow> path \<Rightarrow> path option" where
  "relative_to p d =
     (if anchor p = anchor d \<and> take (length (parts d)) (parts p) = parts d
      then Some (Path [] (drop (length (parts d)) (parts p)))
      else None)"

section \<open>Exceptions\<close>

text \<open>
  The exceptions the modelled code raises itself, and \<open>Raised\<close> for whatever a
  collaborator passed in as a parameter (the fixture \<^verbatim>\<open>reserialize_dags\<close>, the body of a
  \<^verbatim>\<open>with\<close> block) may raise.
\<close>

datatype exn =
    AssertionError string
  | FileNotFoundError
  | Raised string

section \<open>The dbt project directory (stages/migrate.py)\<close>

text \<open>
  \<^verbatim>\<open>os.getenv\<close> reads the process environment, a dictionary from names to values, and
  returns \<^verbatim>\<open>None\<close> for a name that is not set. \<^verbatim>\<open>assert env_val, msg\<close> raises
  \<^verbatim>\<open>AssertionError(msg)\<close> when \<^verbatim>\<open>env_val\<close> is falsy, which for an optional string means
  \<^verbatim>\<open>None\<close> or the empty string (the interpreter runs with assertions on, its default).
\<close>

type_synonym environ = "string \<rightharpoonup> string"

definition getenv :: "environ \<Rightarrow> string \<Rightarrow> string option" where
  "getenv env name = env name"

fun truthy :: "string option \<Rightarrow> bool" where
  "truthy None = False"
| "truthy (Some v) = (v \<noteq> [])"

definition dbt_project_path :: "environ \<Rightarrow> exn + path" where
  "dbt_project_path env =
     (let env_val = getenv env ''TUTORIAL_DBT_PROJECT_DIR''
      in if \<not> truthy env_val then Inl (AssertionError ''TUTORIAL_DBT_PROJECT_DIR must be set'')
         else (case env_val of
                 Some v \<Rightarrow> Inr (mk_path v)
               | None \<Rightarrow> Inl (Raised ''TypeError'')))"

section \<open>Files\<close>

text \<open>
  The file system as the test fixtures use it: a partial map from paths to the
  contents of the regular files there. Files are opened in text mode with the
  default arguments on a POSIX system, where a character of the text is a byte of the
  file:
  \<^item> \<^verbatim>\<open>open(p, "r").read()\<close> raises \<^verbatim>\<open>FileNotFoundError\<close> when there is no file at
    \<open>p\<close>, and otherwise returns the contents with universal newlines: every
    \<^verbatim>\<open>\r\n\<close> and every other \<^verbatim>\<open>\r\<close> is read as \<^verbatim>\<open>\n\<close>;
  \<^item> \<^verbatim>\<open>open(p, "w").write(t)\<close> creates or truncates the file and stores \<open>t\<close> as it is
    (the line separator of the platform is \<^verbatim>\<open>\n\<close>). A write is taken to succeed: the
    directory of the file exists and the disk is not full.
\<close>

record world =
  files :: "path \<rightharpoonup> string"

fun universal_newlines :: "string \<Rightarrow> string" where
  "universal_newlines [] = []"
| "universal_newlines [c] = (if c = CHR 0x0D then [CHR 0x0A] else [c])"
| "universal_newlines (c # d # cs) =
     (if c = CHR 0x0D \<and> d = CHR 0x0A then CHR 0x0A # universal_newlines cs
      else if c = CHR 0x0D then CHR 0x0A # universal_newlines (d # cs)
      else c # universal_newlines (d # cs))"

definition read_text :: "world \<Rightarrow> path \<Rightarrow> exn + string" where
  "read_text s p =
     (case files s p of
        None \<Rightarrow> Inl FileNotFoundError
      | Some raw \<Rightarrow> Inr (universal_newlines raw))"

definition write_text :: "world \<Rightarrow> path \<Rightarrow> string \<Rightarrow> world" where
  "write_text s p t = s\<lparr>files := (files s)(p \<mapsto> t)\<rparr>"

section \<open>The migration state document\<close>

text \<open>
  The fixture builds the dictionary
  \<^verbatim>\<open>{"tasks": [{"id": task, "migrated": task in migrated_tasks} for task in all_tasks]}\<close>
  and hands it to \<^verbatim>\<open>yaml.dump\<close>. The inner dictionary, with its two fixed keys, is the
  record \<open>task_entry\<close> (its key \<^verbatim>\<open>id\<close> is the field \<open>task_id\<close>, the name of the
  specification's MigrationRecord, since \<open>id\<close> is the identity function of HOL); the
  outer one is the record \<open>document\<close>.
\<close>

record task_entry =
  task_id :: string
  migrated :: bool

record document =
  tasks :: "task_entry list"

text \<open>
  \<^verbatim>\<open>all_tasks\<close> is a Python set. Iterating over a set visits each of its elements once,
  in an order that the language leaves open (it follows the hashes of the strings,
  which change from one process to the next): the order is a parameter of the model,
  a list \<open>order\<close> with \<open>set_iteration order all_tasks\<close>.
\<close>

definition all_tasks :: "string set" where
  "all_tasks = {''load_raw_customers'', ''build_dbt_models'', ''export_customers''}"

definition set_iteration :: "'a list \<Rightarrow> 'a set \<Rightarrow> bool" where
  "set_iteration order S = (distinct order \<and> set order = S)"

definition migration_document :: "string list \<Rightarrow> string set \<Rightarrow> document" where
  "migration_document order migrated_tasks =
     \<lparr>tasks = map (\<lambda>task. \<lparr>task_id = task, migrated = (task \<in> migrated_tasks)\<rparr>) order\<rparr>"

section \<open>The fixture mark_tasks_migrated (integration_tests/conftest.py)\<close>

definition migration_state_file :: "path \<Rightarrow> path" where
  "migration_state_file dags_dir =
     truediv (truediv dags_dir ''migration_state'') ''rebuild_customers_list.yaml''"

text \<open>
  A collaborator that runs inside the scope (the fixture \<^verbatim>\<open>reserialize_dags\<close>, the body
  of the \<^verbatim>\<open>with\<close> block) is a function on the world that returns the exception it
  raised, if any, and the world it left behind. \<^verbatim>\<open>yaml.dump\<close> belongs to the PyYAML
  library and is a parameter too, a function from documents to text.

  \<open>enter_scope\<close> is the code up to the first write (lines 63 to 77): the read that
  captures \<open>contents\<close>, outside the \<^verbatim>\<open>try\<close> statement, and the write of the new
  document. \<open>run_scope\<close> is \<^verbatim>\<open>reserialize_dags()\<close> followed by \<^verbatim>\<open>yield\<close>, where the
  body of the \<^verbatim>\<open>with\<close> block runs: an exception of \<^verbatim>\<open>reserialize_dags\<close> skips the
  body, and an exception of the body is thrown into the generator at the
  \<^verbatim>\<open>yield\<close>. \<open>mark_tasks_migrated\<close> is the whole \<^verbatim>\<open>with mark_tasks_migrated(...)\<close>
  statement: the \<^verbatim>\<open>finally\<close> clause writes \<open>contents\<close> back on every way out of the
  \<^verbatim>\<open>try\<close> statement, and the exception, if any, goes on to the caller.
\<close>

type_synonym action = "world \<Rightarrow> exn option \<times> world"

definition enter_scope ::
  "path \<Rightarrow> (document \<Rightarrow> string) \<Rightarrow> string list \<Rightarrow> string set \<Rightarrow> world \<Rightarrow> exn + string \<times> world"
where
  "enter_scope dags_dir yaml_dump order migrated_tasks s =
     (case read_text s (migration_state_file dags_dir) of
        Inl e \<Rightarrow> Inl e
      | Inr contents \<Rightarrow>
          Inr (contents,
               write_text s (migration_state_file dags_dir)
                 (yaml_dump (migration_document order migrated_tasks))))"

definition run_scope :: "action \<Rightarrow> action \<Rightarrow> action" where
  "run_scope reserialize_dags body s =
     (case reserialize_dags s of
        (Some e, s') \<Rightarrow> (Some e, s')
      | (None, s') \<Rightarrow> body s')"

definition mark_tasks_migrated ::
  "path \<Rightarrow> (document \<Rightarrow> string) \<Rightarrow> string list \<Rightarrow> action \<Rightarrow> string set \<Rightarrow> action \<Rightarrow> action"
where
  "mark_tasks_migrated dags_dir yaml_dump order reserialize_dags migrated_tasks body s =
     (case enter_scope dags_dir yaml_dump order migrated_tasks s of
        Inl e \<Rightarrow> (Some e, s)
      | Inr (contents, s1) \<Rightarrow>
          (case run_scope reserialize_dags body s1 of
             (e, s2) \<Rightarrow> (e, write_text s2 (migration_state_file dags_dir) contents)))"

section \<open>The workflow of the tutorial (stages/migrate.py)\<close>

text \<open>
  \<^verbatim>\<open>dag_defs("rebuild_customers_list", task_defs("load_raw_customers", ...),
  task_defs("build_dbt_models", ...), task_defs("export_customers", ...))\<close>: the legacy
  workflow and its tasks, in the order of the call.
\<close>

definition dag_id :: string where
  "dag_id = ''rebuild_customers_list''"

definition dag_task_ids :: "string list" where
  "dag_task_ids = [''load_raw_customers'', ''build_dbt_models'', ''export_customers'']"

section \<open>The migration state protocol of the specification\<close>

text \<open>
  Modelled from the spec: the path rule for the document of an arbitrary workflow,
  which is not in the sources (they hold the one path of the fixture, above). The
  document of a workflow lies under the fixed subdirectory \<^verbatim>\<open>migration_state\<close> of the
  dags directory, in a file named after the workflow's identifier.
\<close>

definition document_path :: "path \<Rightarrow> string \<Rightarrow> path" where
  "document_path dags_dir workflow_id =
     Path (anchor dags_dir) (parts dags_dir @ [''migration_state'', workflow_id @ ''.yaml''])"

text \<open>
  Modelled from the spec: \<^verbatim>\<open>is_migrated(state, task_id) -> bool\<close>, which is not in the
  sources. It returns the stored flag of the record with that id, and false when the
  document has no such record. A MigrationState is the sequence of records under
  \<^verbatim>\<open>tasks\<close>, the type \<open>document\<close>.
\<close>

definition is_migrated :: "document \<Rightarrow> string \<Rightarrow> bool" where
  "is_migrated state tid =
     (case find (\<lambda>r. task_id r = tid) (tasks state) of
        None \<Rightarrow> False
      | Some r \<Rightarrow> migrated r)"

datatype executor = NEW_ORCHESTRATOR | LEGACY_ORCHESTRATOR

text \<open>
  Modelled from the spec: the execution-authority decision rule of section 4.2,
  \<^verbatim>\<open>is_migrated(state, task_id) ? NEW_ORCHESTRATOR : LEGACY_ORCHESTRATOR\<close>, which is not
  in the sources.
\<close>

definition execution_authority :: "document \<Rightarrow> string \<Rightarrow> executor" where
  "execution_authority state tid =
     (if is_migrated state tid then NEW_ORCHESTRATOR else LEGACY_ORCHESTRATOR)"

text \<open>
  Modelled from the spec: what each orchestrator does with the rule (section 2),
  which is not in the sources. The legacy orchestrator skips a task that is marked
  migrated and runs every other one; the new orchestrator runs a task when the same
  rule, on the same document, names it.
\<close>

definition claims_task :: "executor \<Rightarrow> document \<Rightarrow> string \<Rightarrow> bool" where
  "claims_task who state tid = (execution_authority state tid = who)"

text \<open>
  Modelled from the spec: the invariant of a MigrationState (section 3). The ids of
  the records are unique, and every task known to the legacy workflow has exactly one
  record.
\<close>

definition unique_ids :: "document \<Rightarrow> bool" where
  "unique_ids state = distinct (map task_id (tasks state))"

definition record_count :: "document \<Rightarrow> string \<Rightarrow> nat" where
  "record_count state tid = length (filter (\<lambda>r. task_id r = tid) (tasks state))"

definition well_formed :: "string list \<Rightarrow> document \<Rightarrow> bool" where
  "well_formed known state =
     (unique_ids state \<and> list_all (\<lambda>tid. record_count state tid = 1) known)"

section \<open>Examples of the parameters\<close>

text \<open>
  An instance of \<^verbatim>\<open>yaml.dump\<close> for the examples below: the block style that PyYAML
  writes for this dictionary when the task ids are plain words.
\<close>

definition dump_entry :: "task_entry \<Rightarrow> string" where
  "dump_entry r =
     ''- id: '' @ task_id r @ [CHR 0x0A] @
     ''  migrated: '' @ (if migrated r then ''true'' else ''false'') @ [CHR 0x0A]"

definition block_dump :: "document \<Rightarrow> string" where
  "block_dump d =
     (if tasks d = [] then ''tasks: []'' @ [CHR 0x0A]
      else ''tasks:'' @ [CHR 0x0A] @ concat (map dump_entry (tasks d)))"

text \<open>
  A body that does nothing, one that raises, and one that deletes the file of the
  given path before it raises.
\<close>

definition passes :: action where
  "passes s = (None, s)"

definition raises :: "string \<Rightarrow> action" where
  "raises msg s = (Some (Raised msg), s)"

definition deletes_and_raises :: "path \<Rightarrow> string \<Rightarrow> action" where
  "deletes_and_raises p msg s = (Some (Raised msg), s\<lparr>files := (files s)(p := None)\<rparr>)"

text \<open>A body that overwrites the file of the given path and returns.\<close>

definition overwrites :: "path \<Rightarrow> string \<Rightarrow> action" where
  "overwrites p t s = (None, write_text s p t)"

text \<open>The dags directory of the examples, and one iteration order of \<^verbatim>\<open>all_tasks\<close>.\<close>

definition tmp_dags :: path where
  "tmp_dags = mk_path ''/tmp/dags''"

definition an_order :: "string list" where
  "an_order = [''export_customers'', ''load_raw_customers'', ''build_dbt_models'']"

text \<open>
  Three worlds: one whose migration state file lists the three tasks as not migrated,
  one whose file ends its line with a carriage return and a line feed, and one with no
  file at all.
\<close>

definition all_false_text :: string where
  "all_false_text = block_dump (migration_document dag_task_ids {})"

definition a_world :: world where
  "a_world = \<lparr>files = [migration_state_file tmp_dags \<mapsto> all_false_text]\<rparr>"

definition crlf_world :: world where
  "crlf_world =
     \<lparr>files = [migration_state_file tmp_dags \<mapsto> ''tasks: []'' @ [CHR 0x0D, CHR 0x0A]]\<rparr>"

definition empty_world :: world where
  "empty_world = \<lparr>files = Map.empty\<rparr>"

section \<open>Paths of the sources\<close>

lemma path_parts_migration_state:
  "path_parts ''migration_state'' = [''migration_state'']"
  by (simp add: path_parts_def)

lemma path_parts_rebuild_customers_list:
  "path_parts ''rebuild_customers_list.yaml'' = [''rebuild_customers_list.yaml'']"
  by (simp add: path_parts_def)

lemma migration_state_file_parts:
  "migration_state_file dags_dir =
     Path (anchor dags_dir)
       (parts dags_dir @ [''migration_state'', ''rebuild_customers_list.yaml''])"
  by (simp add: migration_state_file_def truediv_def mk_path_def path_anchor_def
      path_parts_migration_state path_parts_rebuild_customers_list)

lemma relative_to_below:
  "relative_to (Path (anchor d) (parts d @ xs)) d = Some (Path [] xs)"
  by (simp add: relative_to_def)

lemma tmp_dags_path: "tmp_dags = Path ''/'' [''tmp'', ''dags'']"
  by (simp add: tmp_dags_def mk_path_def path_anchor_def path_parts_def)

text \<open>
  C7: the migration state document of a workflow is stored at a path derived from the
  workflow's identifier under the fixed subdirectory \<^verbatim>\<open>migration_state\<close>: relative to the
  dags directory it is \<^verbatim>\<open>migration_state/<workflow>.yaml\<close>, two workflows have two paths,
  and the path the fixture builds is the one of the workflow \<^verbatim>\<open>rebuild_customers_list\<close>,
  \<^verbatim>\<open>migration_state/rebuild_customers_list.yaml\<close> relative to the dags directory.
\<close>

theorem migration_state_file_location:
  "relative_to (document_path dags_dir workflow_id) dags_dir =
     Some (Path [] [''migration_state'', workflow_id @ ''.yaml''])
   \<and> ((document_path dags_dir workflow_id = document_path dags_dir workflow_id') =
        (workflow_id = workflow_id'))
   \<and> migration_state_file dags_dir = document_path dags_dir dag_id
   \<and> relative_to (migration_state_file dags_dir) dags_dir =
        Some (mk_path ''migration_state/rebuild_customers_list.yaml'')"
proof -
  have general: "relative_to (document_path dags_dir workflow_id) dags_dir =
      Some (Path [] [''migration_state'', workflow_id @ ''.yaml''])"
    unfolding document_path_def by (rule relative_to_below)
  have one_each: "(document_path dags_dir workflow_id = document_path dags_dir workflow_id') =
      (workflow_id = workflow_id')"
    by (simp add: document_path_def)
  have fixture: "migration_state_file dags_dir = document_path dags_dir dag_id"
    by (simp add: migration_state_file_parts document_path_def dag_id_def)
  have literal: "mk_path ''migration_state/rebuild_customers_list.yaml'' =
      Path [] [''migration_state'', ''rebuild_customers_list.yaml'']"
    by (simp add: mk_path_def path_anchor_def path_parts_def)
  have relative: "relative_to (migration_state_file dags_dir) dags_dir =
      Some (mk_path ''migration_state/rebuild_customers_list.yaml'')"
    unfolding migration_state_file_parts literal by (rule relative_to_below)
  from general one_each fixture relative show ?thesis by blast
qed

theorem migration_state_file_location_example:
  "migration_state_file tmp_dags =
     Path ''/'' [''tmp'', ''dags'', ''migration_state'', ''rebuild_customers_list.yaml'']"
  using migration_state_file_location [of tmp_dags dag_id dag_id]
  by (simp add: tmp_dags_path document_path_def dag_id_def)

section \<open>The dbt project directory\<close>

lemma dbt_project_path_cases:
  "dbt_project_path env =
     (case getenv env ''TUTORIAL_DBT_PROJECT_DIR'' of
        None \<Rightarrow> Inl (AssertionError ''TUTORIAL_DBT_PROJECT_DIR must be set'')
      | Some v \<Rightarrow> if v = [] then Inl (AssertionError ''TUTORIAL_DBT_PROJECT_DIR must be set'')
                  else Inr (mk_path v))"
  unfolding dbt_project_path_def Let_def
  by (cases "getenv env ''TUTORIAL_DBT_PROJECT_DIR''") simp_all

lemma dbt_project_path_unset:
  "getenv env ''TUTORIAL_DBT_PROJECT_DIR'' = None \<Longrightarrow>
   dbt_project_path env = Inl (AssertionError ''TUTORIAL_DBT_PROJECT_DIR must be set'')"
  by (simp only: dbt_project_path_cases option.case)

lemma dbt_project_path_empty:
  "getenv env ''TUTORIAL_DBT_PROJECT_DIR'' = Some [] \<Longrightarrow>
   dbt_project_path env = Inl (AssertionError ''TUTORIAL_DBT_PROJECT_DIR must be set'')"
  by (simp only: dbt_project_path_cases option.case simp_thms if_True)

lemma dbt_project_path_set:
  "getenv env ''TUTORIAL_DBT_PROJECT_DIR'' = Some v \<Longrightarrow> v \<noteq> [] \<Longrightarrow>
   dbt_project_path env = Inr (mk_path v)"
  by (simp only: dbt_project_path_cases option.case if_False)

lemma dbt_project_path_returns:
  assumes "dbt_project_path env = Inr p"
  shows "\<exists>v. getenv env ''TUTORIAL_DBT_PROJECT_DIR'' = Some v \<and> v \<noteq> [] \<and> p = mk_path v"
proof (cases "getenv env ''TUTORIAL_DBT_PROJECT_DIR''")
  case None
  from dbt_project_path_unset [OF None] assms show ?thesis by simp
next
  case (Some v)
  show ?thesis
  proof (cases "v = []")
    case True
    with Some have "getenv env ''TUTORIAL_DBT_PROJECT_DIR'' = Some []" by (simp only:)
    from dbt_project_path_empty [OF this] assms show ?thesis by simp
  next
    case False
    from dbt_project_path_set [OF Some False] assms have "p = mk_path v" by simp
    with Some False show ?thesis by blast
  qed
qed

text \<open>
  C10: \<^verbatim>\<open>dbt_project_path\<close> raises an assertion error whenever the environment variable
  \<^verbatim>\<open>TUTORIAL_DBT_PROJECT_DIR\<close> is unset or empty, and otherwise returns the path of that
  variable's value; it returns a path only when the variable is set and not empty.
\<close>

theorem dbt_project_path_requires_variable:
  "(getenv env ''TUTORIAL_DBT_PROJECT_DIR'' = None \<or> getenv env ''TUTORIAL_DBT_PROJECT_DIR'' = Some []
      \<longrightarrow> dbt_project_path env = Inl (AssertionError ''TUTORIAL_DBT_PROJECT_DIR must be set''))
   \<and> (\<forall>v. getenv env ''TUTORIAL_DBT_PROJECT_DIR'' = Some v \<and> v \<noteq> []
      \<longrightarrow> dbt_project_path env = Inr (mk_path v))
   \<and> (\<forall>p. dbt_project_path env = Inr p
      \<longrightarrow> (\<exists>v. getenv env ''TUTORIAL_DBT_PROJECT_DIR'' = Some v \<and> v \<noteq> [] \<and> p = mk_path v))"
  using dbt_project_path_unset dbt_project_path_empty dbt_project_path_set dbt_project_path_returns
  by blast

theorem dbt_project_path_examples:
  "dbt_project_path Map.empty = Inl (AssertionError ''TUTORIAL_DBT_PROJECT_DIR must be set'')
   \<and> dbt_project_path [''TUTORIAL_DBT_PROJECT_DIR'' \<mapsto> []] =
       Inl (AssertionError ''TUTORIAL_DBT_PROJECT_DIR must be set'')
   \<and> dbt_project_path [''TUTORIAL_DBT_PROJECT_DIR'' \<mapsto> ''/tmp/dbt''] =
       Inr (Path ''/'' [''tmp'', ''dbt''])"
proof -
  have unset: "getenv Map.empty ''TUTORIAL_DBT_PROJECT_DIR'' = None"
    by (simp add: getenv_def)
  have empty: "getenv [''TUTORIAL_DBT_PROJECT_DIR'' \<mapsto> []] ''TUTORIAL_DBT_PROJECT_DIR'' = Some []"
    by (simp only: getenv_def fun_upd_same)
  have set: "getenv [''TUTORIAL_DBT_PROJECT_DIR'' \<mapsto> ''/tmp/dbt''] ''TUTORIAL_DBT_PROJECT_DIR'' =
      Some ''/tmp/dbt'' \<and> ''/tmp/dbt'' \<noteq> []"
    by (simp add: getenv_def)
  have path: "mk_path ''/tmp/dbt'' = Path ''/'' [''tmp'', ''dbt'']"
    by (simp add: mk_path_def path_anchor_def path_parts_def)
  from dbt_project_path_requires_variable [of Map.empty] unset
  have 1: "dbt_project_path Map.empty = Inl (AssertionError ''TUTORIAL_DBT_PROJECT_DIR must be set'')"
    by blast
  from dbt_project_path_requires_variable [of "[''TUTORIAL_DBT_PROJECT_DIR'' \<mapsto> []]"] empty
  have 2: "dbt_project_path [''TUTORIAL_DBT_PROJECT_DIR'' \<mapsto> []] =
      Inl (AssertionError ''TUTORIAL_DBT_PROJECT_DIR must be set'')"
    by blast
  from dbt_project_path_requires_variable [of "[''TUTORIAL_DBT_PROJECT_DIR'' \<mapsto> ''/tmp/dbt'']"] set
  have "dbt_project_path [''TUTORIAL_DBT_PROJECT_DIR'' \<mapsto> ''/tmp/dbt''] = Inr (mk_path ''/tmp/dbt'')"
    by blast
  with path have 3: "dbt_project_path [''TUTORIAL_DBT_PROJECT_DIR'' \<mapsto> ''/tmp/dbt''] =
      Inr (Path ''/'' [''tmp'', ''dbt''])"
    by (simp only:)
  from 1 2 3 show ?thesis by (intro conjI)
qed

section \<open>Entering and leaving the scope\<close>

lemma files_write_text_same: "files (write_text s p t) p = Some t"
  by (simp add: write_text_def)

lemma universal_newlines_id: "CHR 0x0D \<notin> set raw \<Longrightarrow> universal_newlines raw = raw"
  by (induction raw rule: universal_newlines.induct) auto

lemma read_text_absent: "files s p = None \<Longrightarrow> read_text s p = Inl FileNotFoundError"
  by (simp add: read_text_def)

lemma read_text_present: "files s p = Some raw \<Longrightarrow> read_text s p = Inr (universal_newlines raw)"
  by (simp add: read_text_def)

lemma enter_scope_fails:
  "read_text s (migration_state_file dags_dir) = Inl e \<Longrightarrow>
   enter_scope dags_dir yaml_dump order migrated_tasks s = Inl e"
  by (simp add: enter_scope_def)

lemma enter_scope_writes:
  "read_text s (migration_state_file dags_dir) = Inr contents \<Longrightarrow>
   enter_scope dags_dir yaml_dump order migrated_tasks s =
     Inr (contents,
          write_text s (migration_state_file dags_dir)
            (yaml_dump (migration_document order migrated_tasks)))"
  by (simp add: enter_scope_def)

lemma mark_tasks_migrated_not_entered:
  "enter_scope dags_dir yaml_dump order migrated_tasks s = Inl e \<Longrightarrow>
   mark_tasks_migrated dags_dir yaml_dump order reserialize_dags migrated_tasks body s = (Some e, s)"
  by (simp add: mark_tasks_migrated_def)

lemma mark_tasks_migrated_entered:
  "enter_scope dags_dir yaml_dump order migrated_tasks s = Inr (contents, s1) \<Longrightarrow>
   mark_tasks_migrated dags_dir yaml_dump order reserialize_dags migrated_tasks body s =
     (fst (run_scope reserialize_dags body s1),
      write_text (snd (run_scope reserialize_dags body s1)) (migration_state_file dags_dir) contents)"
  by (simp add: mark_tasks_migrated_def split: prod.splits)

lemma restored_on_exit:
  assumes "read_text s (migration_state_file dags_dir) = Inr contents"
  shows "files (snd (mark_tasks_migrated dags_dir yaml_dump order reserialize_dags migrated_tasks body s))
           (migration_state_file dags_dir) = Some contents"
  by (simp only: enter_scope_writes [OF assms] mark_tasks_migrated_entered snd_conv files_write_text_same)

lemma cr_all_false: "CHR 0x0D \<notin> set all_false_text"
  by (simp add: all_false_text_def block_dump_def migration_document_def dag_task_ids_def dump_entry_def)

text \<open>
  C9: the scope changes the migration state file only after the capture of its
  contents has succeeded. When the read at the start fails (the file is absent), the
  error goes to the caller and the world is the one the scope was entered in: nothing
  was written, and neither \<^verbatim>\<open>reserialize_dags\<close> nor the body ran.
\<close>

theorem capture_failure_leaves_file:
  assumes "read_text s (migration_state_file dags_dir) = Inl e"
  shows "enter_scope dags_dir yaml_dump order migrated_tasks s = Inl e
    \<and> mark_tasks_migrated dags_dir yaml_dump order reserialize_dags migrated_tasks body s = (Some e, s)"
proof -
  have stopped: "enter_scope dags_dir yaml_dump order migrated_tasks s = Inl e"
    using assms by (rule enter_scope_fails)
  then have "mark_tasks_migrated dags_dir yaml_dump order reserialize_dags migrated_tasks body s = (Some e, s)"
    by (rule mark_tasks_migrated_not_entered)
  with stopped show ?thesis by (rule conjI)
qed

theorem capture_failure_example:
  "read_text empty_world (migration_state_file tmp_dags) = Inl FileNotFoundError
   \<and> mark_tasks_migrated tmp_dags block_dump an_order (raises ''reserialize'')
        {''export_customers''} (overwrites (migration_state_file tmp_dags) ''tasks: []'') empty_world =
      (Some FileNotFoundError, empty_world)
   \<and> files empty_world (migration_state_file tmp_dags) = None"
proof -
  have absent: "files empty_world (migration_state_file tmp_dags) = None"
    by (simp add: empty_world_def)
  then have fails: "read_text empty_world (migration_state_file tmp_dags) = Inl FileNotFoundError"
    by (rule read_text_absent)
  from capture_failure_leaves_file [OF fails] absent fails show ?thesis by blast
qed

text \<open>
  C2, as the claim states it, fails on a file with a carriage return: the file that
  ends its line with a carriage return and a line feed comes back with a line feed
  alone, also when \<^verbatim>\<open>reserialize_dags\<close> and the body do nothing: the text the scope captured is the text as read, with universal
  newlines, and the restoring write stores that text.
\<close>

theorem restore_not_bytewise:
  "files (snd (mark_tasks_migrated tmp_dags block_dump an_order passes {} passes crlf_world))
     (migration_state_file tmp_dags) \<noteq> files crlf_world (migration_state_file tmp_dags)"
proof -
  have start: "files crlf_world (migration_state_file tmp_dags) = Some (''tasks: []'' @ [CHR 0x0D, CHR 0x0A])"
    by (simp add: crlf_world_def)
  have "files (snd (mark_tasks_migrated tmp_dags block_dump an_order passes {} passes crlf_world))
      (migration_state_file tmp_dags) = Some (universal_newlines (''tasks: []'' @ [CHR 0x0D, CHR 0x0A]))"
    by (rule restored_on_exit [OF read_text_present [OF start]])
  also have "universal_newlines (''tasks: []'' @ [CHR 0x0D, CHR 0x0A]) = ''tasks: []'' @ [CHR 0x0A]"
    by simp
  finally show ?thesis
    unfolding start by simp
qed

text \<open>
  C2 (as amended): when the scope exits, whether \<^verbatim>\<open>reserialize_dags\<close> raised before the
  body ran, the body raised, or the body returned, and whatever the two did to the
  world, the migration state file holds the text that was captured before the scope
  began; for a file without carriage returns that is the content the file had before
  the scope began, byte for byte.
\<close>

theorem restored_on_every_exit:
  assumes "files s (migration_state_file dags_dir) = Some raw"
  shows "read_text s (migration_state_file dags_dir) = Inr (universal_newlines raw)
    \<and> files (snd (mark_tasks_migrated dags_dir yaml_dump order reserialize_dags migrated_tasks body s))
           (migration_state_file dags_dir) = Some (universal_newlines raw)
    \<and> (CHR 0x0D \<notin> set raw \<longrightarrow>
         files (snd (mark_tasks_migrated dags_dir yaml_dump order reserialize_dags migrated_tasks body s))
           (migration_state_file dags_dir) = files s (migration_state_file dags_dir))"
proof -
  have captured: "read_text s (migration_state_file dags_dir) = Inr (universal_newlines raw)"
    using assms by (rule read_text_present)
  have restored: "files (snd (mark_tasks_migrated dags_dir yaml_dump order reserialize_dags migrated_tasks body s))
      (migration_state_file dags_dir) = Some (universal_newlines raw)"
    using captured by (rule restored_on_exit)
  show ?thesis
  proof (intro conjI impI)
    show "read_text s (migration_state_file dags_dir) = Inr (universal_newlines raw)"
      by (rule captured)
  next
    show "files (snd (mark_tasks_migrated dags_dir yaml_dump order reserialize_dags migrated_tasks body s))
      (migration_state_file dags_dir) = Some (universal_newlines raw)"
      by (rule restored)
  next
    assume "CHR 0x0D \<notin> set raw"
    then have "universal_newlines raw = raw" by (rule universal_newlines_id)
    with restored assms
    show "files (snd (mark_tasks_migrated dags_dir yaml_dump order reserialize_dags migrated_tasks body s))
      (migration_state_file dags_dir) = files s (migration_state_file dags_dir)"
      by simp
  qed
qed

theorem restored_on_every_exit_example:
  "files (snd (mark_tasks_migrated tmp_dags block_dump an_order passes {''export_customers''}
      (deletes_and_raises (migration_state_file tmp_dags) ''body'') a_world))
     (migration_state_file tmp_dags) = Some all_false_text
   \<and> files (snd (mark_tasks_migrated tmp_dags block_dump an_order (raises ''reserialize'')
      {''export_customers''} passes a_world))
     (migration_state_file tmp_dags) = Some all_false_text
   \<and> files (snd (mark_tasks_migrated tmp_dags block_dump an_order passes {''export_customers''}
      passes a_world))
     (migration_state_file tmp_dags) = Some all_false_text"
proof -
  have start: "files a_world (migration_state_file tmp_dags) = Some all_false_text"
    by (simp add: a_world_def)
  have plain: "CHR 0x0D \<notin> set all_false_text"
    by (rule cr_all_false)
  have body_raises: "files (snd (mark_tasks_migrated tmp_dags block_dump an_order passes
      {''export_customers''} (deletes_and_raises (migration_state_file tmp_dags) ''body'') a_world))
      (migration_state_file tmp_dags) = files a_world (migration_state_file tmp_dags)"
    by (rule restored_on_every_exit [OF start, THEN conjunct2, THEN conjunct2, THEN mp, OF plain])
  have reserialize_raises: "files (snd (mark_tasks_migrated tmp_dags block_dump an_order
      (raises ''reserialize'') {''export_customers''} passes a_world))
      (migration_state_file tmp_dags) = files a_world (migration_state_file tmp_dags)"
    by (rule restored_on_every_exit [OF start, THEN conjunct2, THEN conjunct2, THEN mp, OF plain])
  have returns: "files (snd (mark_tasks_migrated tmp_dags block_dump an_order passes
      {''export_customers''} passes a_world))
      (migration_state_file tmp_dags) = files a_world (migration_state_file tmp_dags)"
    by (rule restored_on_every_exit [OF start, THEN conjunct2, THEN conjunct2, THEN mp, OF plain])
  from body_raises reserialize_raises returns show ?thesis
    unfolding start by (intro conjI)
qed

section \<open>The document that the scope writes\<close>

lemma tasks_migration_document:
  "tasks (migration_document order migrated_tasks) =
     map (\<lambda>task. \<lparr>task_id = task, migrated = (task \<in> migrated_tasks)\<rparr>) order"
  by (simp add: migration_document_def)

lemma ids_migration_document:
  "map task_id (tasks (migration_document order migrated_tasks)) = order"
  by (simp add: tasks_migration_document comp_def)

lemma entry_in_migration_document:
  "r \<in> set (tasks (migration_document order migrated_tasks)) =
     (task_id r \<in> set order \<and> migrated r = (task_id r \<in> migrated_tasks))"
  by (cases r) (auto simp: tasks_migration_document)

lemma record_count_migration_document:
  assumes "distinct order" and "t \<in> set order"
  shows "record_count (migration_document order migrated_tasks) t = 1"
proof -
  have "filter (\<lambda>r. task_id r = t) (tasks (migration_document order migrated_tasks)) =
      map (\<lambda>task. \<lparr>task_id = task, migrated = (task \<in> migrated_tasks)\<rparr>) (filter (\<lambda>task. task = t) order)"
    by (simp add: tasks_migration_document filter_map comp_def)
  moreover from assms have "length (filter (\<lambda>task. task = t) order) = 1"
    by (induction order) (auto simp: filter_empty_conv)
  ultimately show ?thesis
    by (simp add: record_count_def)
qed

lemma migration_document_ignores:
  assumes "x \<notin> set order"
  shows "migration_document order (insert x migrated_tasks) = migration_document order migrated_tasks"
  using assms by (auto simp: migration_document_def)

lemma set_dag_task_ids: "set dag_task_ids = all_tasks"
  by (auto simp: dag_task_ids_def all_tasks_def)

lemma an_order_iterates: "set_iteration an_order all_tasks"
  by (auto simp: set_iteration_def an_order_def all_tasks_def)

lemma dag_task_ids_iterates: "set_iteration dag_task_ids all_tasks"
  by (auto simp: set_iteration_def dag_task_ids_def all_tasks_def)

lemma enter_scope_cases:
  "(case enter_scope dags_dir yaml_dump order migrated_tasks s of
      Inl e \<Rightarrow> e = FileNotFoundError \<and> files s (migration_state_file dags_dir) = None
    | Inr (contents, s1) \<Rightarrow>
        s1 = write_text s (migration_state_file dags_dir)
               (yaml_dump (migration_document order migrated_tasks))
        \<and> files s1 (migration_state_file dags_dir) =
            Some (yaml_dump (migration_document order migrated_tasks)))"
  by (cases "files s (migration_state_file dags_dir)")
    (simp_all add: enter_scope_def read_text_def write_text_def)

text \<open>
  C3: the document that the scope writes expresses the requested set. Every known task
  is listed with the flag \<open>migrated\<close> true if and only if it is a member of
  \<open>migrated_tasks\<close>, so every other known task is listed with the flag false; every
  record of the document is such a record; and the text in the file, once the scope is
  entered, is the dump of this document.
\<close>

theorem written_document_expresses_request:
  assumes "set_iteration order all_tasks"
  shows "(\<forall>t\<in>all_tasks. \<lparr>task_id = t, migrated = (t \<in> migrated_tasks)\<rparr>
            \<in> set (tasks (migration_document order migrated_tasks)))
    \<and> (\<forall>r\<in>set (tasks (migration_document order migrated_tasks)).
          task_id r \<in> all_tasks \<and> migrated r = (task_id r \<in> migrated_tasks))
    \<and> (case enter_scope dags_dir yaml_dump order migrated_tasks s of
          Inl e \<Rightarrow> files s (migration_state_file dags_dir) = None
        | Inr (contents, s1) \<Rightarrow>
            files s1 (migration_state_file dags_dir) =
              Some (yaml_dump (migration_document order migrated_tasks)))"
proof -
  from assms have order: "set order = all_tasks"
    by (simp add: set_iteration_def)
  have listed: "\<forall>t\<in>all_tasks. \<lparr>task_id = t, migrated = (t \<in> migrated_tasks)\<rparr>
      \<in> set (tasks (migration_document order migrated_tasks))"
    by (simp add: entry_in_migration_document order)
  have flags: "\<forall>r\<in>set (tasks (migration_document order migrated_tasks)).
      task_id r \<in> all_tasks \<and> migrated r = (task_id r \<in> migrated_tasks)"
    by (simp add: entry_in_migration_document order)
  have written: "case enter_scope dags_dir yaml_dump order migrated_tasks s of
      Inl e \<Rightarrow> files s (migration_state_file dags_dir) = None
    | Inr (contents, s1) \<Rightarrow>
        files s1 (migration_state_file dags_dir) =
          Some (yaml_dump (migration_document order migrated_tasks))"
    using enter_scope_cases [where dags_dir = dags_dir and yaml_dump = yaml_dump and order = order
        and migrated_tasks = migrated_tasks and s = s]
    by (auto split: sum.splits prod.splits)
  from listed flags written show ?thesis by (intro conjI)
qed

theorem written_document_expresses_request_example:
  "\<lparr>task_id = ''export_customers'', migrated = True\<rparr>
      \<in> set (tasks (migration_document an_order {''export_customers''}))
   \<and> \<lparr>task_id = ''load_raw_customers'', migrated = False\<rparr>
      \<in> set (tasks (migration_document an_order {''export_customers''}))
   \<and> \<lparr>task_id = ''build_dbt_models'', migrated = False\<rparr>
      \<in> set (tasks (migration_document an_order {''export_customers''}))"
proof -
  note listed = written_document_expresses_request [OF an_order_iterates,
      where migrated_tasks = "{''export_customers''}" and dags_dir = tmp_dags
        and yaml_dump = block_dump and s = a_world, THEN conjunct1]
  have "''export_customers'' \<in> all_tasks" "''load_raw_customers'' \<in> all_tasks"
    "''build_dbt_models'' \<in> all_tasks"
    by (simp_all add: all_tasks_def)
  from this [THEN listed [THEN bspec]] show ?thesis by simp
qed

text \<open>
  C4: the document that the scope writes is well formed for the tasks of the legacy
  workflow (those of \<^verbatim>\<open>dag_defs\<close> in stages/migrate.py): no task id appears twice in
  it and each task of the workflow has exactly one record.
\<close>

theorem written_document_well_formed:
  assumes "set_iteration order all_tasks"
  shows "well_formed dag_task_ids (migration_document order migrated_tasks)
    \<and> (case enter_scope dags_dir yaml_dump order migrated_tasks s of
          Inl e \<Rightarrow> files s (migration_state_file dags_dir) = None
        | Inr (contents, s1) \<Rightarrow>
            (\<exists>state. well_formed dag_task_ids state
               \<and> files s1 (migration_state_file dags_dir) = Some (yaml_dump state)))"
proof -
  from assms have order: "distinct order" "set order = all_tasks"
    by (simp_all add: set_iteration_def)
  have unique: "unique_ids (migration_document order migrated_tasks)"
    by (simp add: unique_ids_def ids_migration_document order)
  have "\<forall>t\<in>set dag_task_ids. record_count (migration_document order migrated_tasks) t = 1"
    by (simp add: record_count_migration_document order set_dag_task_ids)
  with unique have wf: "well_formed dag_task_ids (migration_document order migrated_tasks)"
    by (simp add: well_formed_def list_all_iff)
  have "case enter_scope dags_dir yaml_dump order migrated_tasks s of
      Inl e \<Rightarrow> files s (migration_state_file dags_dir) = None
    | Inr (contents, s1) \<Rightarrow>
        (\<exists>state. well_formed dag_task_ids state
           \<and> files s1 (migration_state_file dags_dir) = Some (yaml_dump state))"
    using enter_scope_cases [where dags_dir = dags_dir and yaml_dump = yaml_dump and order = order
        and migrated_tasks = migrated_tasks and s = s] wf
    by (auto split: sum.splits prod.splits)
  with wf show ?thesis by (rule conjI)
qed

theorem written_document_well_formed_example:
  "well_formed dag_task_ids (migration_document an_order {''export_customers''})
   \<and> record_count (migration_document an_order {''export_customers''}) ''export_customers'' = 1"
proof -
  have "well_formed dag_task_ids (migration_document an_order {''export_customers''})"
    by (rule written_document_well_formed [OF an_order_iterates,
      where migrated_tasks = "{''export_customers''}" and dags_dir = tmp_dags
        and yaml_dump = block_dump and s = a_world, THEN conjunct1])
  then show ?thesis
    by (simp add: well_formed_def dag_task_ids_def)
qed

text \<open>
  C8: whatever set is requested, the ids of the written document are exactly
  \<^verbatim>\<open>load_raw_customers\<close>, \<^verbatim>\<open>build_dbt_models\<close> and \<^verbatim>\<open>export_customers\<close>. A requested id
  \<open>x\<close> that is not one of them is ignored: the document has no record for it, and
  the scope does what it does without \<open>x\<close> in the request; with the file in place,
  entering the scope raises no error.
\<close>

theorem unknown_requests_ignored:
  assumes "set_iteration order all_tasks"
  shows "set (map task_id (tasks (migration_document order migrated_tasks))) =
        {''load_raw_customers'', ''build_dbt_models'', ''export_customers''}
    \<and> (x \<notin> all_tasks \<longrightarrow>
          x \<notin> set (map task_id (tasks (migration_document order (insert x migrated_tasks))))
          \<and> enter_scope dags_dir yaml_dump order (insert x migrated_tasks) s =
              enter_scope dags_dir yaml_dump order migrated_tasks s
          \<and> mark_tasks_migrated dags_dir yaml_dump order reserialize_dags (insert x migrated_tasks) body s =
              mark_tasks_migrated dags_dir yaml_dump order reserialize_dags migrated_tasks body s)
    \<and> (\<forall>raw. files s (migration_state_file dags_dir) = Some raw \<longrightarrow>
          enter_scope dags_dir yaml_dump order migrated_tasks s =
            Inr (universal_newlines raw,
                 write_text s (migration_state_file dags_dir)
                   (yaml_dump (migration_document order migrated_tasks))))"
proof -
  from assms have order: "set order = all_tasks"
    by (simp add: set_iteration_def)
  have ids: "set (map task_id (tasks (migration_document order migrated_tasks))) =
      {''load_raw_customers'', ''build_dbt_models'', ''export_customers''}"
    by (simp only: ids_migration_document order all_tasks_def)
  have ignored: "x \<notin> all_tasks \<longrightarrow>
      x \<notin> set (map task_id (tasks (migration_document order (insert x migrated_tasks))))
      \<and> enter_scope dags_dir yaml_dump order (insert x migrated_tasks) s =
          enter_scope dags_dir yaml_dump order migrated_tasks s
      \<and> mark_tasks_migrated dags_dir yaml_dump order reserialize_dags (insert x migrated_tasks) body s =
          mark_tasks_migrated dags_dir yaml_dump order reserialize_dags migrated_tasks body s"
  proof
    assume "x \<notin> all_tasks"
    with order have unknown: "x \<notin> set order" by simp
    then have same: "migration_document order (insert x migrated_tasks) =
        migration_document order migrated_tasks"
      by (rule migration_document_ignores)
    have entered: "enter_scope dags_dir yaml_dump order (insert x migrated_tasks) s =
        enter_scope dags_dir yaml_dump order migrated_tasks s"
      by (simp only: enter_scope_def same)
    have whole: "mark_tasks_migrated dags_dir yaml_dump order reserialize_dags (insert x migrated_tasks) body s =
        mark_tasks_migrated dags_dir yaml_dump order reserialize_dags migrated_tasks body s"
      by (simp only: mark_tasks_migrated_def entered)
    from unknown have "x \<notin> set (map task_id (tasks (migration_document order (insert x migrated_tasks))))"
      by (simp only: ids_migration_document not_False_eq_True)
    with entered whole
    show "x \<notin> set (map task_id (tasks (migration_document order (insert x migrated_tasks))))
      \<and> enter_scope dags_dir yaml_dump order (insert x migrated_tasks) s =
          enter_scope dags_dir yaml_dump order migrated_tasks s
      \<and> mark_tasks_migrated dags_dir yaml_dump order reserialize_dags (insert x migrated_tasks) body s =
          mark_tasks_migrated dags_dir yaml_dump order reserialize_dags migrated_tasks body s"
      by (intro conjI)
  qed
  have no_error: "\<forall>raw. files s (migration_state_file dags_dir) = Some raw \<longrightarrow>
      enter_scope dags_dir yaml_dump order migrated_tasks s =
        Inr (universal_newlines raw,
             write_text s (migration_state_file dags_dir)
               (yaml_dump (migration_document order migrated_tasks)))"
    by (simp add: enter_scope_writes read_text_present)
  from ids ignored no_error show ?thesis by (intro conjI)
qed

theorem unknown_requests_ignored_example:
  "set (map task_id (tasks (migration_document an_order {''new_task'', ''export_customers''}))) =
     {''load_raw_customers'', ''build_dbt_models'', ''export_customers''}
   \<and> ''new_task'' \<notin> set (map task_id (tasks (migration_document an_order {''new_task'', ''export_customers''})))
   \<and> enter_scope tmp_dags block_dump an_order {''new_task'', ''export_customers''} a_world =
       enter_scope tmp_dags block_dump an_order {''export_customers''} a_world
   \<and> mark_tasks_migrated tmp_dags block_dump an_order passes {''new_task'', ''export_customers''} passes a_world =
       mark_tasks_migrated tmp_dags block_dump an_order passes {''export_customers''} passes a_world"
proof -
  have unknown: "''new_task'' \<notin> all_tasks"
    by (simp add: all_tasks_def)
  from unknown_requests_ignored [OF an_order_iterates,
      where migrated_tasks = "{''new_task'', ''export_customers''}" and x = "''new_task''"
        and dags_dir = tmp_dags and yaml_dump = block_dump and s = a_world
        and reserialize_dags = passes and body = passes, THEN conjunct1]
    unknown_requests_ignored [OF an_order_iterates,
      where migrated_tasks = "{''export_customers''}" and x = "''new_task''"
        and dags_dir = tmp_dags and yaml_dump = block_dump and s = a_world
        and reserialize_dags = passes and body = passes,
      THEN conjunct2, THEN conjunct1, THEN mp, OF unknown]
  show ?thesis by (intro conjI) blast+
qed

section \<open>The decision rule of the specification\<close>

lemma find_unique:
  assumes "distinct (map task_id rs)" and "r \<in> set rs"
  shows "find (\<lambda>q. task_id q = task_id r) rs = Some r"
  using assms
proof (induction rs)
  case Nil
  then show ?case by simp
next
  case (Cons q rs)
  show ?case
  proof (cases "q = r")
    case True
    then show ?thesis by simp
  next
    case False
    with Cons.prems have in_rest: "r \<in> set rs" by simp
    with Cons.prems have "task_id q \<noteq> task_id r" by force
    moreover from Cons.IH Cons.prems in_rest
    have "find (\<lambda>q. task_id q = task_id r) rs = Some r" by simp
    ultimately show ?thesis by simp
  qed
qed

lemma find_absent:
  assumes "tid \<notin> set (map task_id rs)"
  shows "find (\<lambda>q. task_id q = tid) rs = None"
  using assms by (induction rs) auto

lemma is_migrated_stored:
  assumes "unique_ids state" and "r \<in> set (tasks state)"
  shows "is_migrated state (task_id r) = migrated r"
  using find_unique [of "tasks state" r] assms
  by (simp add: is_migrated_def unique_ids_def)

lemma is_migrated_absent:
  assumes "tid \<notin> set (map task_id (tasks state))"
  shows "is_migrated state tid = False"
  using find_absent [OF assms] by (simp add: is_migrated_def)

text \<open>
  C1: for every migration state and every task id the decision rule names the new
  orchestrator when \<open>is_migrated\<close> holds and the legacy orchestrator when it does
  not, and exactly one of the two orchestrators claims the task: never both, never
  neither.
\<close>

theorem exactly_one_executor:
  "execution_authority state tid =
      (if is_migrated state tid then NEW_ORCHESTRATOR else LEGACY_ORCHESTRATOR)
   \<and> claims_task NEW_ORCHESTRATOR state tid = is_migrated state tid
   \<and> claims_task LEGACY_ORCHESTRATOR state tid = (\<not> is_migrated state tid)
   \<and> claims_task NEW_ORCHESTRATOR state tid \<noteq> claims_task LEGACY_ORCHESTRATOR state tid
   \<and> (\<exists>!who. claims_task who state tid)"
proof -
  have rule: "execution_authority state tid =
      (if is_migrated state tid then NEW_ORCHESTRATOR else LEGACY_ORCHESTRATOR)"
    by (simp add: execution_authority_def)
  have new: "claims_task NEW_ORCHESTRATOR state tid = is_migrated state tid"
    by (simp add: claims_task_def rule)
  have legacy: "claims_task LEGACY_ORCHESTRATOR state tid = (\<not> is_migrated state tid)"
    by (simp add: claims_task_def rule)
  from new legacy
  have differ: "claims_task NEW_ORCHESTRATOR state tid \<noteq> claims_task LEGACY_ORCHESTRATOR state tid"
    by simp
  have one: "\<exists>!who. claims_task who state tid"
    by (simp add: claims_task_def)
  from rule new legacy differ one show ?thesis by (intro conjI)
qed

lemma all_false_not_migrated:
  "is_migrated (migration_document dag_task_ids {}) tid = False"
  by (simp add: is_migrated_def migration_document_def dag_task_ids_def)

theorem exactly_one_executor_example:
  "execution_authority (migration_document dag_task_ids {}) ''load_raw_customers'' = LEGACY_ORCHESTRATOR
   \<and> execution_authority (migration_document dag_task_ids {}) ''build_dbt_models'' = LEGACY_ORCHESTRATOR
   \<and> execution_authority (migration_document dag_task_ids {}) ''export_customers'' = LEGACY_ORCHESTRATOR"
  using exactly_one_executor [of "migration_document dag_task_ids {}" "''load_raw_customers''", THEN conjunct1]
    exactly_one_executor [of "migration_document dag_task_ids {}" "''build_dbt_models''", THEN conjunct1]
    exactly_one_executor [of "migration_document dag_task_ids {}" "''export_customers''", THEN conjunct1]
  by (simp only: all_false_not_migrated if_False simp_thms)

text \<open>
  C5: on a well-formed migration state \<open>is_migrated\<close> returns the stored flag of the
  record with the given id, and false for an id that the document does not list, which
  the decision rule then gives to the legacy orchestrator. It returns a truth value
  for every state and every id: the function has no error result.
\<close>

theorem is_migrated_total:
  assumes "well_formed known state"
  shows "(\<forall>r\<in>set (tasks state). is_migrated state (task_id r) = migrated r)
    \<and> (tid \<notin> set (map task_id (tasks state)) \<longrightarrow>
          is_migrated state tid = False
          \<and> execution_authority state tid = LEGACY_ORCHESTRATOR)"
proof -
  from assms have unique: "unique_ids state"
    by (simp add: well_formed_def)
  have stored: "\<forall>r\<in>set (tasks state). is_migrated state (task_id r) = migrated r"
    using is_migrated_stored [OF unique] by blast
  have absent: "tid \<notin> set (map task_id (tasks state)) \<longrightarrow>
      is_migrated state tid = False \<and> execution_authority state tid = LEGACY_ORCHESTRATOR"
  proof
    assume "tid \<notin> set (map task_id (tasks state))"
    then have "is_migrated state tid = False" by (rule is_migrated_absent)
    then show "is_migrated state tid = False \<and> execution_authority state tid = LEGACY_ORCHESTRATOR"
      by (simp add: execution_authority_def)
  qed
  from stored absent show ?thesis by (rule conjI)
qed

theorem is_migrated_total_example:
  "well_formed dag_task_ids (migration_document dag_task_ids {''build_dbt_models''})
   \<and> is_migrated (migration_document dag_task_ids {''build_dbt_models''}) ''build_dbt_models'' = True
   \<and> is_migrated (migration_document dag_task_ids {''build_dbt_models''}) ''export_customers'' = False
   \<and> is_migrated (migration_document dag_task_ids {''build_dbt_models''}) ''new_task'' = False
   \<and> execution_authority (migration_document dag_task_ids {''build_dbt_models''}) ''new_task'' =
       LEGACY_ORCHESTRATOR"
proof -
  let ?state = "migration_document dag_task_ids {''build_dbt_models''}"
  have unique: "unique_ids ?state"
    by (simp add: unique_ids_def ids_migration_document dag_task_ids_def)
  have "\<forall>t\<in>set dag_task_ids. record_count ?state t = 1"
    using dag_task_ids_iterates
    by (simp add: record_count_migration_document set_iteration_def)
  with unique have wf: "well_formed dag_task_ids ?state"
    by (simp add: well_formed_def list_all_iff)
  note total = is_migrated_total [OF wf]
  have built: "\<lparr>task_id = ''build_dbt_models'', migrated = True\<rparr> \<in> set (tasks ?state)"
    by (simp add: entry_in_migration_document dag_task_ids_def)
  have exported: "\<lparr>task_id = ''export_customers'', migrated = False\<rparr> \<in> set (tasks ?state)"
    by (simp add: entry_in_migration_document dag_task_ids_def)
  have new: "''new_task'' \<notin> set (map task_id (tasks ?state))"
    by (simp add: ids_migration_document dag_task_ids_def)
  from total [THEN conjunct1, THEN bspec, OF built]
  have 1: "is_migrated ?state ''build_dbt_models'' = True" by simp
  from total [THEN conjunct1, THEN bspec, OF exported]
  have 2: "is_migrated ?state ''export_customers'' = False" by simp
  from total [where tid = "''new_task''", THEN conjunct2, THEN mp, OF new]
  have 3: "is_migrated ?state ''new_task'' = False
      \<and> execution_authority ?state ''new_task'' = LEGACY_ORCHESTRATOR" .
  from wf 1 2 3 show ?thesis by (intro conjI) blast+
qed

end
